theory Spec2Isabelle
  imports Complex_Main "HOL-Library.Log_Nat" "HOL-Library.Sublist"
begin

section \<open>The PIX payment endpoint \<^verbatim>\<open>api/generate-payment.js\<close>\<close>

text \<open>
  The repository is one asynchronous request handler. It reads two Firestore documents,
  computes an amount in cents, calls one of two payment gateways with \<^verbatim>\<open>fetch\<close> and
  reshapes the answer. The embedding below follows the handler line by line. What the
  handler receives from outside (the documents, the gateway's answer, the wording of the
  engine's own TypeError messages) is a parameter of type \<open>world\<close>; what the handler does
  to the outside (document reads, the outbound call, console output) is recorded as a list
  of events, in program order; an exception that leaves the handler is the left summand of
  the result.

  Strings are lists of bytes holding UTF-8, so the accented letters of the Portuguese
  messages are written as their two bytes. The handler only concatenates strings, compares
  them and tests them for emptiness, and these agree on UTF-8 bytes and on the engine's
  UTF-16 code units.
\<close>

subsection \<open>Numbers: IEEE 754 binary64\<close>

text \<open>
  A JavaScript number is a binary64 value. The finite ones are kept as the rational they
  denote; the sign of zero is dropped, since both zeros print as \<^verbatim>\<open>0\<close> and both are falsy.
\<close>

datatype jsnum = NaN | PosInf | NegInf | Fin rat

definition pow2 :: "int \<Rightarrow> rat" where
  "pow2 e = (if 0 \<le> e then 2 ^ nat e else 1 / 2 ^ nat (- e))"

definition pow10 :: "int \<Rightarrow> rat" where
  "pow10 e = (if 0 \<le> e then 10 ^ nat e else 1 / 10 ^ nat (- e))"

text \<open>\<open>ilog2 x\<close> is the binary exponent of a positive rational: \<open>2^e \<le> x < 2^(e+1)\<close>.\<close>

definition ilog2 :: "rat \<Rightarrow> int" where
  "ilog2 x = (case quotient_of x of (p, q) \<Rightarrow>
     let d = bitlen p - bitlen q in if pow2 d \<le> x then d else d - 1)"

definition round_half_even :: "rat \<Rightarrow> int" where
  "round_half_even x = (let f = \<lfloor>x\<rfloor>; r = x - of_int f in
     if r < 1 / 2 then f else if 1 / 2 < r then f + 1 else if even f then f else f + 1)"

text \<open>
  \<open>fl\<close> rounds an exact result to the nearest binary64 value, ties to even: 53 significant
  bits, exponents down to the subnormal range, infinity from \<open>2^1024\<close> on.
\<close>

definition fl :: "rat \<Rightarrow> jsnum" where
  "fl x = (if x = 0 then Fin 0 else
     let e = max (ilog2 \<bar>x\<bar>) (- 1022);
         u = pow2 (e - 52);
         y = of_int (round_half_even (\<bar>x\<bar> / u)) * u
     in if pow2 1024 \<le> y then (if 0 < x then PosInf else NegInf)
        else Fin (sgn x * y))"

text \<open>The operator \<^verbatim>\<open>*\<close> on two numbers.\<close>

definition js_times :: "jsnum \<Rightarrow> jsnum \<Rightarrow> jsnum" where
  "js_times a b = (case (a, b) of
       (NaN, _) \<Rightarrow> NaN
     | (_, NaN) \<Rightarrow> NaN
     | (Fin x, Fin y) \<Rightarrow> fl (x * y)
     | (Fin x, PosInf) \<Rightarrow> (if x = 0 then NaN else if 0 < x then PosInf else NegInf)
     | (Fin x, NegInf) \<Rightarrow> (if x = 0 then NaN else if 0 < x then NegInf else PosInf)
     | (PosInf, Fin y) \<Rightarrow> (if y = 0 then NaN else if 0 < y then PosInf else NegInf)
     | (NegInf, Fin y) \<Rightarrow> (if y = 0 then NaN else if 0 < y then NegInf else PosInf)
     | (PosInf, PosInf) \<Rightarrow> PosInf
     | (NegInf, NegInf) \<Rightarrow> PosInf
     | (PosInf, NegInf) \<Rightarrow> NegInf
     | (NegInf, PosInf) \<Rightarrow> NegInf)"

text \<open>
  \<^verbatim>\<open>Math.round\<close>: the integer nearest to the argument, and of two equally near integers
  the one towards \<open>+\<infinity>\<close>.
\<close>

definition math_round :: "jsnum \<Rightarrow> jsnum" where
  "math_round a = (case a of Fin x \<Rightarrow> Fin (of_int \<lfloor>x + 1 / 2\<rfloor>) | _ \<Rightarrow> a)"

subsection \<open>Numbers to strings\<close>

definition digit_char :: "nat \<Rightarrow> char" where
  "digit_char d = ''0123456789abcdef'' ! d"

function dec_digits :: "int \<Rightarrow> string" where
  "dec_digits n = (if n < 10 then [digit_char (nat n)]
                   else dec_digits (n div 10) @ [digit_char (nat (n mod 10))])"
  by pat_completeness auto
termination
  by (relation "measure nat") auto

declare dec_digits.simps [simp del]

function declen :: "int \<Rightarrow> int" where
  "declen n = (if 0 < n then declen (n div 10) + 1 else 0)"
  by pat_completeness auto
termination
  by (relation "measure nat") auto

declare declen.simps [simp del]

text \<open>\<open>ilog10 x\<close> is the decimal exponent of a positive rational: \<open>10^e \<le> x < 10^(e+1)\<close>.\<close>

definition ilog10 :: "rat \<Rightarrow> int" where
  "ilog10 x = (if 1 \<le> x then declen \<lfloor>x\<rfloor> - 1 else - declen (\<lceil>1 / x\<rceil> - 1))"

text \<open>
  \<^verbatim>\<open>Number::toString\<close> looks for the fewest digits \<open>k\<close> such that some \<open>s\<close> of \<open>k\<close>
  digits and some \<open>n\<close> give a decimal \<open>s * 10^(n-k)\<close> that reads back as the number; of
  several such \<open>s\<close> it takes the nearest. \<open>digits_at x k\<close> is that \<open>(s, n)\<close> for a
  given \<open>k\<close>, if there is one.
\<close>

definition digits_at :: "rat \<Rightarrow> nat \<Rightarrow> (int \<times> int) option" where
  "digits_at x k = (let e = ilog10 x; sc = pow10 (e + 1 - int k); lo = \<lfloor>x / sc\<rfloor>; hi = lo + 1;
       ok = (\<lambda>s. fl (of_int s * sc) = Fin x);
       pick = (if ok lo \<and> ok hi then
                 (if x - of_int lo * sc < of_int hi * sc - x then Some lo
                  else if of_int hi * sc - x < x - of_int lo * sc then Some hi
                  else if even lo then Some lo else Some hi)
               else if ok lo then Some lo else if ok hi then Some hi else None)
     in case pick of None \<Rightarrow> None
        | Some s \<Rightarrow> if s = 10 ^ k then Some (10 ^ (k - 1), e + 2) else Some (s, e + 1))"

fun shortest_digits :: "rat \<Rightarrow> nat \<Rightarrow> nat \<Rightarrow> nat \<times> int \<times> int" where
  "shortest_digits x k 0 = (k, \<lfloor>x / pow10 (ilog10 x + 1 - int k)\<rfloor>, ilog10 x + 1)"
| "shortest_digits x k (Suc fuel) =
     (case digits_at x k of Some (s, n) \<Rightarrow> (k, s, n) | None \<Rightarrow> shortest_digits x (Suc k) fuel)"

definition format_digits :: "nat \<Rightarrow> int \<Rightarrow> int \<Rightarrow> string" where
  "format_digits k s n = (let ds = dec_digits s in
     if int k \<le> n \<and> n \<le> 21 then ds @ replicate (nat (n - int k)) (CHR ''0'')
     else if 0 < n \<and> n \<le> 21 then take (nat n) ds @ ''.'' @ drop (nat n) ds
     else if - 6 < n \<and> n \<le> 0 then ''0.'' @ replicate (nat (- n)) (CHR ''0'') @ ds
     else let ex = (if n - 1 < 0 then ''-'' else ''+'') @ dec_digits \<bar>n - 1\<bar>
          in if k = 1 then ds @ ''e'' @ ex else take 1 ds @ ''.'' @ drop 1 ds @ ''e'' @ ex)"

text \<open>
  Seventeen digits always suffice for a binary64 value, so the search ends within its
  bound. An integer up to \<open>2^53\<close> is its own shortest decimal and is printed directly.
\<close>

definition number_to_string :: "jsnum \<Rightarrow> string" where
  "number_to_string m = (case m of
       NaN \<Rightarrow> ''NaN''
     | PosInf \<Rightarrow> ''Infinity''
     | NegInf \<Rightarrow> ''-Infinity''
     | Fin x \<Rightarrow>
         if x = 0 then ''0''
         else if of_int \<lfloor>x\<rfloor> = x \<and> \<bar>x\<bar> \<le> 9007199254740992
           then (if x < 0 then ''-'' else []) @ dec_digits \<bar>\<lfloor>x\<rfloor>\<bar>
         else (case shortest_digits \<bar>x\<bar> 1 17 of (k, s, n) \<Rightarrow>
                 (if x < 0 then ''-'' else []) @ format_digits k s n))"

subsection \<open>Strings to numbers\<close>

text \<open>The white space and line terminators of the language, as UTF-8.\<close>

definition ws_seqs :: "string list" where
  "ws_seqs =
     [[CHR 0x09], [CHR 0x0A], [CHR 0x0B], [CHR 0x0C], [CHR 0x0D], [CHR 0x20],
      [CHR 0xC2, CHR 0xA0], [CHR 0xE1, CHR 0x9A, CHR 0x80],
      [CHR 0xE2, CHR 0x80, CHR 0x80], [CHR 0xE2, CHR 0x80, CHR 0x81],
      [CHR 0xE2, CHR 0x80, CHR 0x82], [CHR 0xE2, CHR 0x80, CHR 0x83],
      [CHR 0xE2, CHR 0x80, CHR 0x84], [CHR 0xE2, CHR 0x80, CHR 0x85],
      [CHR 0xE2, CHR 0x80, CHR 0x86], [CHR 0xE2, CHR 0x80, CHR 0x87],
      [CHR 0xE2, CHR 0x80, CHR 0x88], [CHR 0xE2, CHR 0x80, CHR 0x89],
      [CHR 0xE2, CHR 0x80, CHR 0x8A], [CHR 0xE2, CHR 0x80, CHR 0xA8],
      [CHR 0xE2, CHR 0x80, CHR 0xA9], [CHR 0xE2, CHR 0x80, CHR 0xAF],
      [CHR 0xE2, CHR 0x81, CHR 0x9F], [CHR 0xE3, CHR 0x80, CHR 0x80],
      [CHR 0xEF, CHR 0xBB, CHR 0xBF]]"

fun strip_left :: "nat \<Rightarrow> string \<Rightarrow> string" where
  "strip_left 0 s = s"
| "strip_left (Suc n) s =
     (case find (\<lambda>w. prefix w s) ws_seqs of
        None \<Rightarrow> s
      | Some w \<Rightarrow> strip_left n (drop (length w) s))"

fun strip_right :: "nat \<Rightarrow> string \<Rightarrow> string" where
  "strip_right 0 s = s"
| "strip_right (Suc n) s =
     (case find (\<lambda>w. suffix w s) ws_seqs of
        None \<Rightarrow> s
      | Some w \<Rightarrow> strip_right n (take (length s - length w) s))"

definition trim :: "string \<Rightarrow> string" where
  "trim s = strip_right (length s) (strip_left (length s) s)"

definition digit_of :: "char \<Rightarrow> int" where
  "digit_of c = (let n = int (of_char c) in
     if 48 \<le> n \<and> n \<le> 57 then n - 48
     else if 97 \<le> n \<and> n \<le> 102 then n - 87
     else if 65 \<le> n \<and> n \<le> 70 then n - 55
     else 99)"

definition all_digits :: "int \<Rightarrow> string \<Rightarrow> bool" where
  "all_digits base ds = (ds \<noteq> [] \<and> list_all (\<lambda>c. digit_of c < base) ds)"

definition digits_val :: "int \<Rightarrow> string \<Rightarrow> int" where
  "digits_val base ds = foldl (\<lambda>a c. a * base + digit_of c) 0 ds"

definition split_sign :: "string \<Rightarrow> bool \<times> string" where
  "split_sign s = (case s of
       c # r \<Rightarrow> if c = CHR ''-'' then (True, r) else if c = CHR ''+'' then (False, r) else (False, s)
     | [] \<Rightarrow> (False, s))"

text \<open>
  An unsigned decimal literal: digits, an optional fraction, an optional exponent; at least
  one digit before or after the point. The result is its exact value.
\<close>

definition str_decimal :: "string \<Rightarrow> rat option" where
  "str_decimal r = (let is_dec = (\<lambda>c. digit_of c < 10);
       d1 = takeWhile is_dec r; r1 = dropWhile is_dec r;
       d2 = (case r1 of c # t \<Rightarrow> if c = CHR ''.'' then takeWhile is_dec t else [] | [] \<Rightarrow> []);
       r2 = (case r1 of c # t \<Rightarrow> if c = CHR ''.'' then dropWhile is_dec t else r1 | [] \<Rightarrow> []);
       mant = of_int (digits_val 10 (d1 @ d2))
     in if d1 = [] \<and> d2 = [] then None
        else (case r2 of
            [] \<Rightarrow> Some (mant * pow10 (- int (length d2)))
          | c # r3 \<Rightarrow>
              if c = CHR ''e'' \<or> c = CHR ''E'' then
                (case split_sign r3 of (neg, ds) \<Rightarrow>
                   if all_digits 10 ds
                   then Some (mant * pow10 ((if neg then - digits_val 10 ds else digits_val 10 ds)
                                            - int (length d2)))
                   else None)
              else None))"

definition radix_of :: "string \<Rightarrow> int option" where
  "radix_of s = (case s of
       c0 # c1 # _ \<Rightarrow>
         if c0 \<noteq> CHR ''0'' then None
         else if c1 = CHR ''x'' \<or> c1 = CHR ''X'' then Some 16
         else if c1 = CHR ''o'' \<or> c1 = CHR ''O'' then Some 8
         else if c1 = CHR ''b'' \<or> c1 = CHR ''B'' then Some 2
         else None
     | _ \<Rightarrow> None)"

text \<open>\<^verbatim>\<open>StringToNumber\<close>: what \<^verbatim>\<open>*\<close> makes of a string operand.\<close>

definition string_to_number :: "string \<Rightarrow> jsnum" where
  "string_to_number s0 = (let s = trim s0 in
     if s = [] then Fin 0
     else (case radix_of s of
         Some base \<Rightarrow>
           if all_digits base (drop 2 s) then fl (of_int (digits_val base (drop 2 s))) else NaN
       | None \<Rightarrow>
           (case split_sign s of (neg, r) \<Rightarrow>
              if r = ''Infinity'' then (if neg then NegInf else PosInf)
              else (case str_decimal r of
                  None \<Rightarrow> NaN
                | Some v \<Rightarrow> fl (if neg then - v else v)))))"

subsection \<open>Values\<close>

text \<open>
  The values the handler meets are the request body, Firestore document data and parsed
  JSON: primitives, arrays and plain objects. An object is the list of its own properties
  in enumeration order; a key occurs once.
\<close>

datatype jsval =
    JUndefined
  | JNull
  | JBool bool
  | JNum jsnum
  | JStr string
  | JArr "jsval list"
  | JObj "(string \<times> jsval) list"

text \<open>What \<^verbatim>\<open>!v\<close> negates.\<close>

fun truthy :: "jsval \<Rightarrow> bool" where
  "truthy JUndefined = False"
| "truthy JNull = False"
| "truthy (JBool b) = b"
| "truthy (JNum n) = (n \<noteq> NaN \<and> n \<noteq> Fin 0)"
| "truthy (JStr s) = (s \<noteq> [])"
| "truthy (JArr xs) = True"
| "truthy (JObj kvs) = True"

fun join_with :: "string \<Rightarrow> string list \<Rightarrow> string" where
  "join_with sep [] = []"
| "join_with sep [x] = x"
| "join_with sep (x # y # ys) = x @ sep @ join_with sep (y # ys)"

text \<open>\<^verbatim>\<open>ToString\<close>, as a template literal and \<^verbatim>\<open>URLSearchParams.append\<close> apply it.\<close>

fun to_string :: "jsval \<Rightarrow> string" where
  "to_string JUndefined = ''undefined''"
| "to_string JNull = ''null''"
| "to_string (JBool b) = (if b then ''true'' else ''false'')"
| "to_string (JNum n) = number_to_string n"
| "to_string (JStr s) = s"
| "to_string (JArr xs) =
     join_with '','' (map (\<lambda>x. if x = JUndefined \<or> x = JNull then [] else to_string x) xs)"
| "to_string (JObj kvs) = ''[object Object]''"

text \<open>\<^verbatim>\<open>ToNumber\<close>, as the operator \<^verbatim>\<open>*\<close> applies it to its operands.\<close>

fun to_number :: "jsval \<Rightarrow> jsnum" where
  "to_number JUndefined = NaN"
| "to_number JNull = Fin 0"
| "to_number (JBool b) = (if b then Fin 1 else Fin 0)"
| "to_number (JNum n) = n"
| "to_number (JStr s) = string_to_number s"
| "to_number (JArr xs) = string_to_number (to_string (JArr xs))"
| "to_number (JObj kvs) = NaN"

text \<open>
  An exception: an \<^verbatim>\<open>Error\<close> the handler throws itself, an error object a collaborator
  rejects with (Firestore, \<^verbatim>\<open>fetch\<close>, \<^verbatim>\<open>Response.json\<close>), or the engine's TypeError for
  reading a property of \<^verbatim>\<open>undefined\<close> or \<^verbatim>\<open>null\<close>, kept as the value and the property.
\<close>

datatype js_error =
    Error string
  | Rejected string
  | TypeError jsval string

text \<open>
  \<open>get_prop v k\<close> is \<^verbatim>\<open>v.k\<close> for the property names the handler reads; none of them is
  defined on a prototype, so a primitive or an array has none of them.
\<close>

definition get_prop :: "jsval \<Rightarrow> string \<Rightarrow> js_error + jsval" where
  "get_prop v k = (case v of
       JUndefined \<Rightarrow> Inl (TypeError v k)
     | JNull \<Rightarrow> Inl (TypeError v k)
     | JObj kvs \<Rightarrow> (case map_of kvs k of None \<Rightarrow> Inr JUndefined | Some x \<Rightarrow> Inr x)
     | _ \<Rightarrow> Inr JUndefined)"

subsection \<open>\<^verbatim>\<open>JSON.stringify\<close> and the query string\<close>

definition hex2 :: "nat \<Rightarrow> string" where
  "hex2 n = [digit_char (n div 16), digit_char (n mod 16)]"

definition json_escape :: "char \<Rightarrow> string" where
  "json_escape c = (let n = (of_char c :: nat) in
     if c = CHR 0x22 then [CHR 0x5C, CHR 0x22]
     else if c = CHR 0x5C then [CHR 0x5C, CHR 0x5C]
     else if n = 8 then [CHR 0x5C, CHR ''b'']
     else if n = 12 then [CHR 0x5C, CHR ''f'']
     else if n = 10 then [CHR 0x5C, CHR ''n'']
     else if n = 13 then [CHR 0x5C, CHR ''r'']
     else if n = 9 then [CHR 0x5C, CHR ''t'']
     else if n < 32 then [CHR 0x5C, CHR ''u'', CHR ''0'', CHR ''0''] @ hex2 n
     else [c])"

definition json_quote :: "string \<Rightarrow> string" where
  "json_quote s = [CHR 0x22] @ concat (map json_escape s) @ [CHR 0x22]"

text \<open>
  \<open>json_text v\<close> is \<^verbatim>\<open>JSON.stringify(v)\<close>, \<open>None\<close> where that is \<^verbatim>\<open>undefined\<close>. A
  property whose value is \<^verbatim>\<open>undefined\<close> is left out, such an array element is
  \<^verbatim>\<open>null\<close>, and so is a number that is not finite.
\<close>

fun json_text :: "jsval \<Rightarrow> string option" where
  "json_text JUndefined = None"
| "json_text JNull = Some ''null''"
| "json_text (JBool b) = Some (if b then ''true'' else ''false'')"
| "json_text (JNum n) = Some (case n of Fin x \<Rightarrow> number_to_string n | _ \<Rightarrow> ''null'')"
| "json_text (JStr s) = Some (json_quote s)"
| "json_text (JArr xs) =
     Some (''['' @ join_with '','' (map (\<lambda>x. case json_text x of None \<Rightarrow> ''null'' | Some t \<Rightarrow> t) xs)
           @ '']'')"
| "json_text (JObj kvs) =
     Some (''{'' @ join_with '',''
             (concat (map (\<lambda>(k, x). case json_text x of None \<Rightarrow> []
                                     | Some t \<Rightarrow> [json_quote k @ '':'' @ t]) kvs))
           @ ''}'')"

text \<open>
  The \<^verbatim>\<open>application/x-www-form-urlencoded\<close> serialiser behind \<^verbatim>\<open>searchParams\<close>:
  letters, digits and \<^verbatim>\<open>*-._\<close> stay, a space becomes \<^verbatim>\<open>+\<close>, every other byte is
  percent-encoded.
\<close>

definition HEX2 :: "nat \<Rightarrow> string" where
  "HEX2 n = [''0123456789ABCDEF'' ! (n div 16), ''0123456789ABCDEF'' ! (n mod 16)]"

definition form_byte :: "char \<Rightarrow> string" where
  "form_byte c = (let n = (of_char c :: nat) in
     if (48 \<le> n \<and> n \<le> 57) \<or> (65 \<le> n \<and> n \<le> 90) \<or> (97 \<le> n \<and> n \<le> 122)
        \<or> c = CHR ''*'' \<or> c = CHR ''-'' \<or> c = CHR ''.'' \<or> c = CHR ''_'' then [c]
     else if c = CHR 0x20 then ''+''
     else CHR ''%'' # HEX2 n)"

definition form_encode :: "string \<Rightarrow> string" where
  "form_encode s = concat (map form_byte s)"

definition query_string :: "(string \<times> string) list \<Rightarrow> string" where
  "query_string ps = join_with ''&'' (map (\<lambda>(k, v). form_encode k @ ''='' @ form_encode v) ps)"

subsection \<open>The outside of the handler\<close>

record request =
  req_method :: string
  req_body :: jsval

datatype payload = NoBody | Text string | Json jsval

record response =
  status :: nat
  res_headers :: "(string \<times> string) list"
  payload :: payload

text \<open>The two arguments of \<^verbatim>\<open>fetch\<close>: the address and the options object.\<close>

record http_call =
  url :: string
  http_method :: string
  headers :: "(string \<times> string) list"
  body :: "string option"

text \<open>
  What \<^verbatim>\<open>fetch\<close> resolves to: the \<^verbatim>\<open>ok\<close> flag and what \<^verbatim>\<open>json()\<close> will give, the
  parsed body or the message of the error it rejects with.
\<close>

record fetch_response =
  ok :: bool
  json :: "string + jsval"

datatype fetch_result = FetchRejected string | FetchResponse fetch_response

datatype snapshot = Missing | Exists jsval

datatype get_result = GetRejected string | GetResolved snapshot

text \<open>
  The collaborators. \<open>doc_check\<close> is \<^verbatim>\<open>db.doc(path)\<close>, which throws on a malformed path;
  \<open>doc_get\<close> is \<^verbatim>\<open>get()\<close> on the reference. When both reads of \<^verbatim>\<open>Promise.all\<close> reject,
  \<open>account_settles_first\<close> says whose rejection came first. \<open>type_error_text\<close> is the
  engine's message for reading a property of \<^verbatim>\<open>undefined\<close> or \<^verbatim>\<open>null\<close>.
\<close>

record world =
  doc_check :: "string \<Rightarrow> string option"
  doc_get :: "string \<Rightarrow> get_result"
  account_settles_first :: bool
  fetch :: "http_call \<Rightarrow> fetch_result"
  type_error_text :: "jsval \<Rightarrow> string \<Rightarrow> string"

datatype log_arg = LText string | LVal jsval | LErr js_error

datatype event =
    DbGet string
  | Fetch http_call
  | ConsoleLog "log_arg list"
  | ConsoleError "log_arg list"

text \<open>
  A piece of the handler's body: the events it caused, and either the exception it threw
  or its value.
\<close>

type_synonym 'a comp = "event list \<times> (js_error + 'a)"

definition done_c :: "'a \<Rightarrow> 'a comp" where
  "done_c x = ([], Inr x)"

definition throw_c :: "js_error \<Rightarrow> 'a comp" where
  "throw_c e = ([], Inl e)"

definition lift_c :: "js_error + 'a \<Rightarrow> 'a comp" where
  "lift_c r = ([], r)"

definition emit :: "event \<Rightarrow> unit comp" where
  "emit ev = ([ev], Inr ())"

definition bind_c :: "'a comp \<Rightarrow> ('a \<Rightarrow> 'b comp) \<Rightarrow> 'b comp" where
  "bind_c m f = (case m of
       (evs, Inl e) \<Rightarrow> (evs, Inl e)
     | (evs, Inr x) \<Rightarrow> (case f x of (evs', r) \<Rightarrow> (evs @ evs', r)))"

definition catch_c :: "'a comp \<Rightarrow> (js_error \<Rightarrow> 'a comp) \<Rightarrow> 'a comp" where
  "catch_c m h = (case m of
       (evs, Inl e) \<Rightarrow> (case h e of (evs', r) \<Rightarrow> (evs @ evs', r))
     | (evs, Inr x) \<Rightarrow> (evs, Inr x))"

definition error_message :: "world \<Rightarrow> js_error \<Rightarrow> string" where
  "error_message w e = (case e of
       Error m \<Rightarrow> m
     | Rejected m \<Rightarrow> m
     | TypeError v k \<Rightarrow> type_error_text w v k)"

definition do_fetch :: "world \<Rightarrow> http_call \<Rightarrow> fetch_response comp" where
  "do_fetch w c = ([Fetch c],
     case fetch w c of FetchRejected m \<Rightarrow> Inl (Rejected m) | FetchResponse r \<Rightarrow> Inr r)"

definition read_json :: "fetch_response \<Rightarrow> jsval comp" where
  "read_json r = lift_c (case json r of Inl m \<Rightarrow> Inl (Rejected m) | Inr v \<Rightarrow> Inr v)"

text \<open>\<^verbatim>\<open>a || b\<close>\<close>

definition or_else :: "jsval \<Rightarrow> jsval \<Rightarrow> jsval" where
  "or_else a b = (if truthy a then a else b)"

definition json_response :: "nat \<Rightarrow> jsval \<Rightarrow> response" where
  "json_response code v = \<lparr>status = code, res_headers = [], payload = Json v\<rparr>"

definition failure :: "string \<Rightarrow> jsval" where
  "failure msg = JObj [(''success'', JBool False), (''error'', JStr msg)]"

subsection \<open>The handler\<close>

definition nao :: string where
  "nao = ''n'' @ [CHR 0xC3, CHR 0xA3] @ ''o''"

definition method_not_allowed_text :: string where
  "method_not_allowed_text = ''M'' @ [CHR 0xC3, CHR 0xA9] @ ''todo '' @ nao @ '' permitido''"

definition incomplete_msg :: string where
  "incomplete_msg = ''Dados incompletos: linkId, accountId e customerName s'' @ [CHR 0xC3, CHR 0xA3]
     @ ''o obrigat'' @ [CHR 0xC3, CHR 0xB3] @ ''rios.''"

definition link_not_found_msg :: string where
  "link_not_found_msg = ''Link de pagamento '' @ nao @ '' encontrado.''"

definition account_not_found_msg :: string where
  "account_not_found_msg = ''Conta de configura'' @ [CHR 0xC3, CHR 0xA7, CHR 0xC3, CHR 0xA3]
     @ ''o '' @ nao @ '' encontrada.''"

definition unsupported_msg :: "jsval \<Rightarrow> string" where
  "unsupported_msg activeGateway =
     ''Gateway '' @ [CHR 0x27] @ to_string activeGateway @ [CHR 0x27] @ '' '' @ nao @ '' suportado.''"

text \<open>Lines 80 to 83: the two references, then both reads at once.\<close>

definition link_path :: "jsval \<Rightarrow> jsval \<Rightarrow> string" where
  "link_path accountId linkId = ''accounts/'' @ to_string accountId @ ''/links/'' @ to_string linkId"

definition account_path :: "jsval \<Rightarrow> string" where
  "account_path accountId = ''accounts/'' @ to_string accountId"

definition load_documents :: "world \<Rightarrow> jsval \<Rightarrow> jsval \<Rightarrow> (snapshot \<times> snapshot) comp" where
  "load_documents w accountId linkId =
     (case doc_check w (link_path accountId linkId) of
           Some m \<Rightarrow> throw_c (Rejected m)
         | None \<Rightarrow>
             (case doc_check w (account_path accountId) of
                Some m \<Rightarrow> throw_c (Rejected m)
              | None \<Rightarrow>
                  ([DbGet (link_path accountId linkId), DbGet (account_path accountId)],
                   case (doc_get w (link_path accountId linkId),
                         doc_get w (account_path accountId)) of
                     (GetRejected m1, GetRejected m2) \<Rightarrow>
                       Inl (Rejected (if account_settles_first w then m2 else m1))
                   | (GetRejected m1, GetResolved _) \<Rightarrow> Inl (Rejected m1)
                   | (GetResolved _, GetRejected m2) \<Rightarrow> Inl (Rejected m2)
                   | (GetResolved linkDoc, GetResolved accountDoc) \<Rightarrow> Inr (linkDoc, accountDoc))))"

text \<open>Line 97.\<close>

definition amount_in_cents :: "jsval \<Rightarrow> jsnum" where
  "amount_in_cents planValue = math_round (js_times (to_number planValue) (Fin 100))"

text \<open>Lines 104 to 133, the case \<^verbatim>\<open>'buckpay'\<close>. Its value is the properties of \<^verbatim>\<open>pixData\<close>.\<close>

definition buckpay_call :: "jsval \<Rightarrow> jsval \<Rightarrow> jsnum \<Rightarrow> http_call" where
  "buckpay_call buckpayToken linkId amountInCents =
     \<lparr>url = ''https://api.realtechdev.com.br/v1/transactions'',
      http_method = ''POST'',
      headers = [(''Content-Type'', ''application/json''),
                 (''Authorization'', ''Bearer '' @ to_string buckpayToken),
                 (''User-Agent'', ''Buckpay API'')],
      body = json_text (JObj [(''external_id'', linkId),
                              (''amount'', JNum amountInCents),
                              (''payment_method'', JStr ''pix'')])\<rparr>"

definition buckpay_case :: "world \<Rightarrow> jsval \<Rightarrow> jsnum \<Rightarrow> jsval \<Rightarrow> (string \<times> jsval) list comp" where
  "buckpay_case w linkId amountInCents gatewaySettings =
     bind_c (lift_c (get_prop gatewaySettings ''buckpay_token'')) (\<lambda>buckpayToken.
       if \<not> truthy buckpayToken then throw_c (Error (''Token da BuckPay '' @ nao @ '' configurado.''))
       else
         bind_c (emit (ConsoleLog [LText ''Chamando API BuckPay...''])) (\<lambda>_.
         bind_c (do_fetch w (buckpay_call buckpayToken linkId amountInCents)) (\<lambda>buckpayResponse.
           if \<not> ok buckpayResponse then
             bind_c (read_json buckpayResponse) (\<lambda>errorData.
             bind_c (emit (ConsoleError [LText ''Erro da API BuckPay:'', LVal errorData])) (\<lambda>_.
             bind_c (lift_c (get_prop errorData ''message'')) (\<lambda>message.
               throw_c (Error (to_string (or_else message (JStr ''Erro na API BuckPay'')))))))
           else
             bind_c (read_json buckpayResponse) (\<lambda>buckpayResult.
             bind_c (lift_c (get_prop buckpayResult ''data'')) (\<lambda>data.
             bind_c (lift_c (get_prop data ''pix'')) (\<lambda>pix.
             bind_c (lift_c (get_prop pix ''code'')) (\<lambda>code.
             bind_c (lift_c (get_prop buckpayResult ''data'')) (\<lambda>data'.
             bind_c (lift_c (get_prop data' ''pix'')) (\<lambda>pix'.
             bind_c (lift_c (get_prop pix' ''qrcode_base64'')) (\<lambda>qrcode_base64.
               done_c [(''pixCode'', code),
                       (''qrCodeImage'',
                        JStr (''data:image/png;base64,'' @ to_string qrcode_base64))]))))))))))"

text \<open>Lines 136 to 167, the case \<^verbatim>\<open>'zeroonepay'\<close>.\<close>

definition zeroonepay_call :: "jsval \<Rightarrow> jsval \<Rightarrow> jsval \<Rightarrow> jsval \<Rightarrow> jsnum \<Rightarrow> http_call" where
  "zeroonepay_call zeroonepay_token zeroonepay_offer_hash zeroonepay_product_hash customerName
       amountInCents =
     \<lparr>url = ''https://api.zeroonepay.com.br/api/public/v1/checkout/pix'' @ ''?'' @
        query_string [(''api_token'', to_string zeroonepay_token),
                      (''offer_hash'', to_string zeroonepay_offer_hash),
                      (''product_hash'', to_string zeroonepay_product_hash),
                      (''email'', ''cliente@email.com''),
                      (''name'', to_string customerName),
                      (''amount'', to_string (JNum amountInCents))],
      http_method = ''POST'',
      headers = [],
      body = None\<rparr>"

definition zeroonepay_case ::
    "world \<Rightarrow> jsval \<Rightarrow> jsnum \<Rightarrow> jsval \<Rightarrow> (string \<times> jsval) list comp" where
  "zeroonepay_case w customerName amountInCents gatewaySettings =
     bind_c (lift_c (get_prop gatewaySettings ''zeroonepay_token'')) (\<lambda>zeroonepay_token.
     bind_c (lift_c (get_prop gatewaySettings ''zeroonepay_offer_hash'')) (\<lambda>zeroonepay_offer_hash.
     bind_c (lift_c (get_prop gatewaySettings ''zeroonepay_product_hash'')) (\<lambda>zeroonepay_product_hash.
       if \<not> truthy zeroonepay_token \<or> \<not> truthy zeroonepay_offer_hash
          \<or> \<not> truthy zeroonepay_product_hash
       then throw_c (Error ''Credenciais da ZeroOnePay incompletas.'')
       else
         bind_c (emit (ConsoleLog [LText ''Chamando API ZeroOnePay...''])) (\<lambda>_.
         bind_c (do_fetch w (zeroonepay_call zeroonepay_token zeroonepay_offer_hash
                               zeroonepay_product_hash customerName amountInCents))
           (\<lambda>zeroOneResponse.
           if \<not> ok zeroOneResponse then
             bind_c (read_json zeroOneResponse) (\<lambda>errorData.
             bind_c (emit (ConsoleError [LText ''Erro da API ZeroOnePay:'', LVal errorData])) (\<lambda>_.
             bind_c (lift_c (get_prop errorData ''message'')) (\<lambda>message.
               throw_c (Error (to_string (or_else message (JStr ''Erro na API ZeroOnePay'')))))))
           else
             bind_c (read_json zeroOneResponse) (\<lambda>zeroOneResult.
             bind_c (lift_c (get_prop zeroOneResult ''success'')) (\<lambda>success.
             bind_c (if \<not> truthy success then done_c JUndefined
                     else lift_c (get_prop zeroOneResult ''data'')) (\<lambda>data.
               if \<not> truthy success \<or> \<not> truthy data then
                 bind_c (lift_c (get_prop zeroOneResult ''message'')) (\<lambda>message.
                   throw_c (Error (to_string
                     (or_else message (JStr ''Falha ao gerar PIX na ZeroOnePay.'')))))
               else
                 bind_c (lift_c (get_prop data ''pix_code'')) (\<lambda>pix_code.
                 bind_c (lift_c (get_prop data ''qrcode_image'')) (\<lambda>qrcode_image.
                   done_c [(''pixCode'', pix_code), (''qrCodeImage'', qrcode_image)]))))))))))"

text \<open>Lines 102 to 176: the \<^verbatim>\<open>switch\<close>, which compares with \<^verbatim>\<open>===\<close>.\<close>

definition gateway_switch ::
    "world \<Rightarrow> jsval \<Rightarrow> jsval \<Rightarrow> jsnum \<Rightarrow> jsval \<Rightarrow> jsval \<Rightarrow> (string \<times> jsval) list comp" where
  "gateway_switch w linkId customerName amountInCents activeGateway gatewaySettings =
     (if activeGateway = JStr ''buckpay'' then
        buckpay_case w linkId amountInCents gatewaySettings
      else if activeGateway = JStr ''zeroonepay'' then
        zeroonepay_case w customerName amountInCents gatewaySettings
      else throw_c (Error (unsupported_msg activeGateway)))"

text \<open>Lines 79 to 180: the body of the \<^verbatim>\<open>try\<close>.\<close>

definition try_block :: "world \<Rightarrow> jsval \<Rightarrow> jsval \<Rightarrow> jsval \<Rightarrow> response comp" where
  "try_block w linkId accountId customerName =
     bind_c (load_documents w accountId linkId) (\<lambda>(linkDoc, accountDoc).
       case linkDoc of
         Missing \<Rightarrow> done_c (json_response 404 (failure link_not_found_msg))
       | Exists linkData \<Rightarrow>
           (case accountDoc of
              Missing \<Rightarrow> done_c (json_response 404 (failure account_not_found_msg))
            | Exists accountData \<Rightarrow>
                bind_c (lift_c (get_prop accountData ''activeGateway'')) (\<lambda>activeGateway.
                bind_c (lift_c (get_prop accountData ''gatewaySettings'')) (\<lambda>gatewaySettings.
                bind_c (lift_c (get_prop linkData ''planValue'')) (\<lambda>planValue.
                bind_c (gateway_switch w linkId customerName (amount_in_cents planValue)
                          activeGateway gatewaySettings) (\<lambda>pixData.
                bind_c (emit (ConsoleLog
                          [LText ''Sucesso! Enviando dados do PIX para o frontend.''])) (\<lambda>_.
                  done_c (json_response 200 (JObj ((''success'', JBool True) # pixData))))))))))"

text \<open>
  Lines 55 to 185, from the point where the CORS middleware has called back. The
  destructuring of line 72 and the check of line 74 stand before the \<^verbatim>\<open>try\<close>.
\<close>

definition handler :: "world \<Rightarrow> request \<Rightarrow> response comp" where
  "handler w request =
     (if req_method request = ''OPTIONS'' then
        done_c \<lparr>status = 200, res_headers = [], payload = NoBody\<rparr>
      else if req_method request \<noteq> ''POST'' then
        done_c \<lparr>status = 405, res_headers = [(''Allow'', ''POST'')],
                payload = Text method_not_allowed_text\<rparr>
      else
        bind_c (lift_c (get_prop (req_body request) ''linkId'')) (\<lambda>linkId.
        bind_c (lift_c (get_prop (req_body request) ''accountId'')) (\<lambda>accountId.
        bind_c (lift_c (get_prop (req_body request) ''customerName'')) (\<lambda>customerName.
          if \<not> truthy linkId \<or> \<not> truthy accountId \<or> \<not> truthy customerName then
            done_c (json_response 400 (failure incomplete_msg))
          else
            catch_c (try_block w linkId accountId customerName) (\<lambda>error.
              bind_c (emit (ConsoleError [LText ''Erro geral no handler da API:'', LErr error]))
                (\<lambda>_. done_c (json_response 500 (failure (error_message w error)))))))))"

subsection \<open>Preconditions and example runs\<close>

text \<open>
  A POST request whose body can be destructured (it is neither \<^verbatim>\<open>undefined\<close> nor
  \<^verbatim>\<open>null\<close>), with the three values line 72 reads from it; a missing field reads as
  \<^verbatim>\<open>undefined\<close>. The request is valid when it passes the check of line 74: the three
  values are truthy.
\<close>

definition body_fields :: "request \<Rightarrow> jsval \<Rightarrow> jsval \<Rightarrow> jsval \<Rightarrow> bool" where
  "body_fields request linkId accountId customerName =
     (req_method request = ''POST''
      \<and> get_prop (req_body request) ''linkId'' = Inr linkId
      \<and> get_prop (req_body request) ''accountId'' = Inr accountId
      \<and> get_prop (req_body request) ''customerName'' = Inr customerName)"

definition valid_post :: "request \<Rightarrow> jsval \<Rightarrow> jsval \<Rightarrow> jsval \<Rightarrow> bool" where
  "valid_post request linkId accountId customerName =
     (body_fields request linkId accountId customerName
      \<and> truthy linkId \<and> truthy accountId \<and> truthy customerName)"

text \<open>Both references are accepted and both reads resolve.\<close>

definition lookups_complete :: "world \<Rightarrow> jsval \<Rightarrow> jsval \<Rightarrow> snapshot \<Rightarrow> snapshot \<Rightarrow> bool" where
  "lookups_complete w accountId linkId linkDoc accountDoc =
     (doc_check w (link_path accountId linkId) = None
      \<and> doc_check w (account_path accountId) = None
      \<and> doc_get w (link_path accountId linkId) = GetResolved linkDoc
      \<and> doc_get w (account_path accountId) = GetResolved accountDoc)"

text \<open>
  The three reads of lines 94 and 97 give the gateway name, the settings and the plan
  value.
\<close>

definition config_fields :: "jsval \<Rightarrow> jsval \<Rightarrow> jsval \<Rightarrow> jsval \<Rightarrow> jsval \<Rightarrow> bool" where
  "config_fields linkData accountData activeGateway gatewaySettings planValue =
     (get_prop accountData ''activeGateway'' = Inr activeGateway
      \<and> get_prop accountData ''gatewaySettings'' = Inr gatewaySettings
      \<and> get_prop linkData ''planValue'' = Inr planValue)"

text \<open>The outbound calls among the events.\<close>

fun calls_of :: "event list \<Rightarrow> http_call list" where
  "calls_of [] = []"
| "calls_of (Fetch c # evs) = c # calls_of evs"
| "calls_of (_ # evs) = calls_of evs"

text \<open>
  An example deployment: account \<^verbatim>\<open>A1\<close> with link \<^verbatim>\<open>L1\<close>, each present or not, and a
  gateway that answers every call alike.
\<close>

definition example_store :: "snapshot \<Rightarrow> snapshot \<Rightarrow> string \<Rightarrow> get_result" where
  "example_store linkDoc accountDoc path =
     (if path = ''accounts/A1/links/L1'' then GetResolved linkDoc
      else if path = ''accounts/A1'' then GetResolved accountDoc
      else GetResolved Missing)"

definition example_world :: "snapshot \<Rightarrow> snapshot \<Rightarrow> fetch_result \<Rightarrow> world" where
  "example_world linkDoc accountDoc answer =
     \<lparr>doc_check = (\<lambda>path. None),
      doc_get = example_store linkDoc accountDoc,
      account_settles_first = False,
      fetch = (\<lambda>c. answer),
      type_error_text = (\<lambda>v k. ''Cannot read properties of '' @ to_string v)\<rparr>"

definition example_request :: "jsval \<Rightarrow> request" where
  "example_request customerName =
     \<lparr>req_method = ''POST'',
      req_body = JObj [(''linkId'', JStr ''L1''), (''accountId'', JStr ''A1''),
                       (''customerName'', customerName)]\<rparr>"

definition example_link :: "rat \<Rightarrow> jsval" where
  "example_link planValue = JObj [(''planValue'', JNum (Fin planValue))]"

definition example_account :: "string \<Rightarrow> (string \<times> jsval) list \<Rightarrow> jsval" where
  "example_account activeGateway settings =
     JObj [(''activeGateway'', JStr activeGateway), (''gatewaySettings'', JObj settings)]"

definition json_answer :: "bool \<Rightarrow> jsval \<Rightarrow> fetch_result" where
  "json_answer success v = FetchResponse \<lparr>ok = success, json = Inr v\<rparr>"

text \<open>
  A credential the gateway case needs is missing: the settings cannot be read at all, or
  the field is absent or otherwise falsy (empty string, \<^verbatim>\<open>null\<close>, zero, \<^verbatim>\<open>false\<close>).
\<close>

definition credential_missing :: "jsval \<Rightarrow> string \<Rightarrow> bool" where
  "credential_missing gatewaySettings k =
     (case get_prop gatewaySettings k of Inl _ \<Rightarrow> True | Inr v \<Rightarrow> \<not> truthy v)"

text \<open>The handler answered with status 500 and the envelope \<^verbatim>\<open>{success: false, error}\<close>.\<close>

definition failed_500 :: "response comp \<Rightarrow> bool" where
  "failed_500 run = (case snd run of
       Inl _ \<Rightarrow> False
     | Inr r \<Rightarrow> status r = 500 \<and>
         (case payload r of
            Json (JObj [(k1, JBool False), (k2, JStr msg)]) \<Rightarrow> k1 = ''success'' \<and> k2 = ''error''
          | _ \<Rightarrow> False))"

text \<open>\<open>path v [k1, k2, ...]\<close> is the chain of reads \<^verbatim>\<open>v.k1.k2...\<close>.\<close>

fun path :: "jsval \<Rightarrow> string list \<Rightarrow> js_error + jsval" where
  "path v [] = Inr v"
| "path v (k # ks) = (case get_prop v k of Inl e \<Rightarrow> Inl e | Inr x \<Rightarrow> path x ks)"






section \<open>Properties\<close>

subsection \<open>Auxiliary facts\<close>

lemmas comp_defs = bind_c_def catch_c_def done_c_def throw_c_def lift_c_def emit_def

lemma handler_valid_post:
  assumes "valid_post request linkId accountId customerName"
  shows "handler w request =
     catch_c (try_block w linkId accountId customerName) (\<lambda>error.
       bind_c (emit (ConsoleError [LText ''Erro geral no handler da API:'', LErr error]))
         (\<lambda>_. done_c (json_response 500 (failure (error_message w error)))))"
  using assms by (simp add: handler_def valid_post_def body_fields_def comp_defs)

subsection \<open>Request validation\<close>



lemma load_documents_complete:
  assumes "lookups_complete w accountId linkId linkDoc accountDoc"
  shows "load_documents w accountId linkId =
           ([DbGet (link_path accountId linkId), DbGet (account_path accountId)],
            Inr (linkDoc, accountDoc))"
  using assms by (simp add: load_documents_def lookups_complete_def)

text \<open>
  Once the request is valid and both documents are there, the handler is the \<^verbatim>\<open>switch\<close>
  between the two reads and the final answer: 200 with the gateway's data, or 500 with
  the message of whatever was thrown.
\<close>

lemma handler_dispatch:
  assumes "valid_post request linkId accountId customerName"
    and "lookups_complete w accountId linkId (Exists linkData) (Exists accountData)"
    and "config_fields linkData accountData activeGateway gatewaySettings planValue"
  shows "handler w request =
     (case gateway_switch w linkId customerName (amount_in_cents planValue)
             activeGateway gatewaySettings of
        (evs, Inl e) \<Rightarrow>
          ([DbGet (link_path accountId linkId), DbGet (account_path accountId)] @ evs
             @ [ConsoleError [LText ''Erro geral no handler da API:'', LErr e]],
           Inr (json_response 500 (failure (error_message w e))))
      | (evs, Inr pixData) \<Rightarrow>
          ([DbGet (link_path accountId linkId), DbGet (account_path accountId)] @ evs
             @ [ConsoleLog [LText ''Sucesso! Enviando dados do PIX para o frontend.'']],
           Inr (json_response 200 (JObj ((''success'', JBool True) # pixData)))))"
  using assms(3)
  by (simp add: handler_valid_post [OF assms(1)] try_block_def
        load_documents_complete [OF assms(2)] config_fields_def comp_defs
        split: prod.splits sum.splits)


lemma example_valid_post:
  "truthy c \<Longrightarrow> valid_post (example_request c) (JStr ''L1'') (JStr ''A1'') c"
  by (simp add: valid_post_def body_fields_def example_request_def get_prop_def)

lemma example_lookups:
  "lookups_complete (example_world linkDoc accountDoc answer) (JStr ''A1'') (JStr ''L1'')
     linkDoc accountDoc"
  by (simp add: lookups_complete_def example_world_def example_store_def link_path_def
        account_path_def)

lemma example_config:
  "config_fields (example_link x) (example_account g settings) (JStr g) (JObj settings)
     (JNum (Fin x))"
  by (simp add: config_fields_def example_link_def example_account_def get_prop_def)

subsection \<open>Configuration lookup\<close>



subsection \<open>Gateway dispatch\<close>



lemma buckpay_case_no_token:
  assumes "credential_missing gatewaySettings ''buckpay_token''"
  shows "\<exists>e. buckpay_case w linkId amount gatewaySettings = ([], Inl e)"
  using assms
  by (auto simp add: credential_missing_def buckpay_case_def comp_defs split: sum.splits)

lemma get_prop_readable:
  "get_prop v k = Inr x \<Longrightarrow> \<exists>y. get_prop v k' = Inr y"
  by (cases v) (auto simp add: get_prop_def split: option.splits)

lemma zeroonepay_case_no_credentials:
  assumes "credential_missing gatewaySettings ''zeroonepay_token''
           \<or> credential_missing gatewaySettings ''zeroonepay_offer_hash''
           \<or> credential_missing gatewaySettings ''zeroonepay_product_hash''"
  shows "\<exists>e. zeroonepay_case w customerName amount gatewaySettings = ([], Inl e)"
proof (cases "get_prop gatewaySettings ''zeroonepay_token''")
  case (Inl e)
  then show ?thesis by (simp add: zeroonepay_case_def comp_defs)
next
  case t: (Inr t)
  then obtain o' p where o: "get_prop gatewaySettings ''zeroonepay_offer_hash'' = Inr o'"
    and p: "get_prop gatewaySettings ''zeroonepay_product_hash'' = Inr p"
    using get_prop_readable [OF t] by blast
  from assms t o p have "\<not> truthy t \<or> \<not> truthy o' \<or> \<not> truthy p"
    by (simp add: credential_missing_def)
  with t o p show ?thesis by (auto simp add: zeroonepay_case_def comp_defs)
qed

lemma handler_dispatch_thrown:
  assumes "valid_post request linkId accountId customerName"
    and "lookups_complete w accountId linkId (Exists linkData) (Exists accountData)"
    and "config_fields linkData accountData activeGateway gatewaySettings planValue"
    and "gateway_switch w linkId customerName (amount_in_cents planValue)
           activeGateway gatewaySettings = (evs, Inl e)"
  shows "handler w request =
          ([DbGet (link_path accountId linkId), DbGet (account_path accountId)] @ evs
             @ [ConsoleError [LText ''Erro geral no handler da API:'', LErr e]],
           Inr \<lparr>status = 500, res_headers = [],
                 payload = Json (JObj [(''success'', JBool False),
                                       (''error'', JStr (error_message w e))])\<rparr>)"
  by (simp add: handler_dispatch [OF assms(1,2,3)] assms(4) json_response_def failure_def)


subsection \<open>Missing credentials\<close>

text \<open>
  Claim C6. For a valid POST request with both documents present, if the gateway is
  \<^verbatim>\<open>"buckpay"\<close> and \<^verbatim>\<open>buckpay_token\<close> is missing, or the gateway is \<^verbatim>\<open>"zeroonepay"\<close> and
  one of \<^verbatim>\<open>zeroonepay_token\<close>, \<^verbatim>\<open>zeroonepay_offer_hash\<close>, \<^verbatim>\<open>zeroonepay_product_hash\<close>
  is missing, the handler answers 500 with \<^verbatim>\<open>{success: false, error}\<close> and makes no
  outbound call.
\<close>

theorem missing_credentials_500:
  assumes "valid_post request linkId accountId customerName"
    and "lookups_complete w accountId linkId (Exists linkData) (Exists accountData)"
    and "config_fields linkData accountData activeGateway gatewaySettings planValue"
    and "(activeGateway = JStr ''buckpay''
            \<and> credential_missing gatewaySettings ''buckpay_token'')
         \<or> (activeGateway = JStr ''zeroonepay''
            \<and> (credential_missing gatewaySettings ''zeroonepay_token''
               \<or> credential_missing gatewaySettings ''zeroonepay_offer_hash''
               \<or> credential_missing gatewaySettings ''zeroonepay_product_hash''))"
  shows "failed_500 (handler w request) \<and> calls_of (fst (handler w request)) = []"
proof -
  from assms(4) obtain e where
    "gateway_switch w linkId customerName (amount_in_cents planValue)
       activeGateway gatewaySettings = ([], Inl e)"
    using buckpay_case_no_token [of gatewaySettings w linkId "amount_in_cents planValue"]
      zeroonepay_case_no_credentials [of gatewaySettings w customerName "amount_in_cents planValue"]
    by (auto simp add: gateway_switch_def)
  from handler_dispatch_thrown [OF assms(1,2,3) this]
  show ?thesis by (simp add: failed_500_def)
qed

theorem missing_credentials_500_witness:
  "valid_post (example_request (JStr ''Ana'')) (JStr ''L1'') (JStr ''A1'') (JStr ''Ana'')
   \<and> lookups_complete
        (example_world (Exists (example_link 10))
           (Exists (example_account ''zeroonepay''
              [(''zeroonepay_token'', JStr ''t''), (''zeroonepay_offer_hash'', JStr '''')]))
           (FetchRejected ''down''))
        (JStr ''A1'') (JStr ''L1'') (Exists (example_link 10))
        (Exists (example_account ''zeroonepay''
              [(''zeroonepay_token'', JStr ''t''), (''zeroonepay_offer_hash'', JStr '''')]))
   \<and> config_fields (example_link 10)
        (example_account ''zeroonepay''
              [(''zeroonepay_token'', JStr ''t''), (''zeroonepay_offer_hash'', JStr '''')])
        (JStr ''zeroonepay'')
        (JObj [(''zeroonepay_token'', JStr ''t''), (''zeroonepay_offer_hash'', JStr '''')])
        (JNum (Fin 10))
   \<and> credential_missing
        (JObj [(''zeroonepay_token'', JStr ''t''), (''zeroonepay_offer_hash'', JStr '''')])
        ''zeroonepay_offer_hash''
   \<and> failed_500 (handler
        (example_world (Exists (example_link 10))
           (Exists (example_account ''zeroonepay''
              [(''zeroonepay_token'', JStr ''t''), (''zeroonepay_offer_hash'', JStr '''')]))
           (FetchRejected ''down''))
        (example_request (JStr ''Ana'')))
   \<and> calls_of (fst (handler
        (example_world (Exists (example_link 10))
           (Exists (example_account ''zeroonepay''
              [(''zeroonepay_token'', JStr ''t''), (''zeroonepay_offer_hash'', JStr '''')]))
           (FetchRejected ''down''))
        (example_request (JStr ''Ana'')))) = []"
proof -
  have missing: "credential_missing
        (JObj [(''zeroonepay_token'', JStr ''t''), (''zeroonepay_offer_hash'', JStr '''')])
        ''zeroonepay_offer_hash''"
    by (simp add: credential_missing_def get_prop_def)
  from missing_credentials_500 [OF example_valid_post [of "JStr ''Ana''"]
          example_lookups [where answer = "FetchRejected ''down''"]
          example_config [where x = 10 and g = "''zeroonepay''" and settings =
            "[(''zeroonepay_token'', JStr ''t''), (''zeroonepay_offer_hash'', JStr [])]"]]
       missing
  show ?thesis
    using example_valid_post [of "JStr ''Ana''"] by (simp add: example_lookups example_config)
qed


lemma path2:
  assumes "path v [a, b] = Inr x"
  shows "\<exists>d. get_prop v a = Inr d \<and> get_prop d b = Inr x"
  using assms by (auto split: sum.splits)


subsection \<open>The BuckPay case\<close>







subsection \<open>The ZeroOnePay case\<close>







subsection \<open>The customer name and the BuckPay call\<close>

lemma try_block_buckpay_name:
  assumes "doc_get w (account_path accountId) = GetResolved (Exists accountData)"
    and "get_prop accountData ''activeGateway'' = Inr (JStr ''buckpay'')"
  shows "try_block w linkId accountId name1 = try_block w linkId accountId name2"
  using assms
  by (simp add: try_block_def load_documents_def gateway_switch_def comp_defs
        split: option.splits get_result.splits snapshot.splits prod.splits sum.splits)

text \<open>
  Claim C10. When the account's \<^verbatim>\<open>activeGateway\<close> is \<^verbatim>\<open>"buckpay"\<close>, two valid POST requests
  with the same \<^verbatim>\<open>linkId\<close> and \<^verbatim>\<open>accountId\<close> that differ in \<^verbatim>\<open>customerName\<close> run alike in
  the same world: the same events, among them the same outbound call (address, method,
  headers and body), and the same answer, although either request without a truthy
  \<^verbatim>\<open>customerName\<close> would have been refused.
\<close>

theorem buckpay_ignores_customer_name:
  assumes "valid_post request1 linkId accountId name1"
    and "valid_post request2 linkId accountId name2"
    and "doc_get w (account_path accountId) = GetResolved (Exists accountData)"
    and "get_prop accountData ''activeGateway'' = Inr (JStr ''buckpay'')"
  shows "handler w request1 = handler w request2"
  by (simp add: handler_valid_post [OF assms(1)] handler_valid_post [OF assms(2)]
        try_block_buckpay_name [OF assms(3,4), of linkId name1 name2])

theorem buckpay_ignores_customer_name_witness:
  "valid_post (example_request (JStr ''Ana'')) (JStr ''L1'') (JStr ''A1'') (JStr ''Ana'')
   \<and> valid_post (example_request (JStr ''Bob'')) (JStr ''L1'') (JStr ''A1'') (JStr ''Bob'')
   \<and> doc_get (example_world (Exists (example_link 10))
                (Exists (example_account ''buckpay'' [(''buckpay_token'', JStr ''tok'')]))
                (json_answer True JNull))
        (account_path (JStr ''A1'')) =
       GetResolved (Exists (example_account ''buckpay'' [(''buckpay_token'', JStr ''tok'')]))
   \<and> get_prop (example_account ''buckpay'' [(''buckpay_token'', JStr ''tok'')])
        ''activeGateway'' = Inr (JStr ''buckpay'')
   \<and> handler (example_world (Exists (example_link 10))
                (Exists (example_account ''buckpay'' [(''buckpay_token'', JStr ''tok'')]))
                (json_answer True JNull))
        (example_request (JStr ''Ana'')) =
       handler (example_world (Exists (example_link 10))
                (Exists (example_account ''buckpay'' [(''buckpay_token'', JStr ''tok'')]))
                (json_answer True JNull))
        (example_request (JStr ''Bob''))"
proof -
  let ?account = "example_account ''buckpay'' [(''buckpay_token'', JStr ''tok'')]"
  let ?w = "example_world (Exists (example_link 10)) (Exists ?account) (json_answer True JNull)"
  have ana: "valid_post (example_request (JStr ''Ana'')) (JStr ''L1'') (JStr ''A1'') (JStr ''Ana'')"
    and bob: "valid_post (example_request (JStr ''Bob'')) (JStr ''L1'') (JStr ''A1'') (JStr ''Bob'')"
    by (simp_all add: example_valid_post)
  have account: "doc_get ?w (account_path (JStr ''A1'')) = GetResolved (Exists ?account)"
    by (simp add: example_world_def example_store_def account_path_def)
  have gateway: "get_prop ?account ''activeGateway'' = Inr (JStr ''buckpay'')"
    by (simp add: example_account_def get_prop_def)
  from buckpay_ignores_customer_name [OF ana bob account gateway] ana bob account gateway
  show ?thesis by simp
qed

subsection \<open>Errors at the handler boundary\<close>

text \<open>
  Everything thrown inside the \<^verbatim>\<open>try\<close> is caught: a POST request whose body can be
  destructured is always answered, and where the \<^verbatim>\<open>try\<close> block threw, the answer is 500
  with the envelope \<^verbatim>\<open>{success: false, error: <message>}\<close>.
\<close>

lemma handler_answers_with_body:
  assumes "body_fields request linkId accountId customerName"
  shows "\<exists>r. snd (handler w request) = Inr r"
proof (cases "truthy linkId \<and> truthy accountId \<and> truthy customerName")
  case True
  with assms have "valid_post request linkId accountId customerName"
    by (simp add: valid_post_def)
  from handler_valid_post [OF this] show ?thesis
    by (cases "try_block w linkId accountId customerName")
       (auto simp add: comp_defs split: sum.splits)
next
  case False
  with assms show ?thesis
    by (auto simp add: handler_def body_fields_def comp_defs)
qed

lemma handler_catches:
  assumes "valid_post request linkId accountId customerName"
    and "snd (try_block w linkId accountId customerName) = Inl e"
  shows "snd (handler w request) =
           Inr \<lparr>status = 500, res_headers = [],
                 payload = Json (JObj [(''success'', JBool False),
                                       (''error'', JStr (error_message w e))])\<rparr>"
  using assms(2)
  by (cases "try_block w linkId accountId customerName")
     (simp add: handler_valid_post [OF assms(1)] comp_defs json_response_def failure_def)

text \<open>
  Claim C9. The claim includes a POST request whose body is missing. There the
  destructuring of line 72, which stands before the \<^verbatim>\<open>try\<close>, throws a TypeError; no
  \<^verbatim>\<open>catch\<close> is around it, so the error leaves the handler and no JSON envelope is sent.
\<close>

theorem missing_body_escapes:
  "handler w \<lparr>req_method = ''POST'', req_body = JUndefined\<rparr> =
     ([], Inl (TypeError JUndefined ''linkId''))"
  by (simp add: handler_def comp_defs get_prop_def)

subsection \<open>Amount conversion\<close>














theorem missing_body_escapes_witness:
  "handler (example_world Missing Missing (FetchRejected ''down''))
     \<lparr>req_method = ''POST'', req_body = JUndefined\<rparr> =
     ([], Inl (TypeError JUndefined ''linkId''))"
  using missing_body_escapes [of "example_world Missing Missing (FetchRejected ''down'')"]
  by simp

subsection \<open>The binary exponent\<close>

text \<open>
  \<open>fl\<close> scales by the binary exponent of its argument; \<open>ilog2\<close> computes it from the bit
  lengths of numerator and denominator, and is that exponent indeed.
\<close>

lemma pow2_diff: "pow2 (int a - int b) = 2 ^ a / 2 ^ b"
proof (cases "b \<le> a")
  case True
  then have "(2::rat) ^ a = 2 ^ b * 2 ^ (a - b)" by (simp flip: power_add)
  moreover from True have "pow2 (int a - int b) = 2 ^ (a - b)"
    by (simp add: pow2_def nat_diff_distrib)
  ultimately show ?thesis by simp
next
  case False
  then have "(2::rat) ^ b = 2 ^ a * 2 ^ (b - a)" by (simp flip: power_add)
  moreover from False have "pow2 (int a - int b) = 1 / 2 ^ (b - a)"
    by (simp add: pow2_def nat_diff_distrib)
  ultimately show ?thesis by simp
qed

lemma pow2_succ: "pow2 (e + 1) = 2 * pow2 e"
proof -
  consider "0 \<le> e" | "e = - 1" | "e < - 1" by linarith
  then show ?thesis
  proof cases
    case 1
    then show ?thesis by (simp add: pow2_def nat_add_distrib)
  next
    case 2
    then show ?thesis by (simp add: pow2_def)
  next
    case 3
    then have "nat (- e) = Suc (nat (- e - 1))" by simp
    with 3 show ?thesis by (simp add: pow2_def)
  qed
qed

lemma ilog2_bounds:
  assumes "0 < x"
  shows "pow2 (ilog2 x) \<le> x \<and> x < pow2 (ilog2 x + 1)"
proof -
  obtain p q where pq: "quotient_of x = (p, q)" by (cases "quotient_of x")
  then have q: "0 < q" by (rule quotient_of_denom_pos)
  from pq have x: "x = of_int p / of_int q" by (rule quotient_of_div)
  with assms q have p: "0 < p" by (simp add: zero_less_divide_iff)
  define a where "a = nat (bitlen p)"
  define b where "b = nat (bitlen q)"
  have pred: "nat (z - 1) = nat z - 1" for z :: int by arith
  from bitlen_bounds [OF p] have pa: "2 ^ (a - 1) \<le> p" "p < 2 ^ a"
    by (simp_all add: a_def pred)
  from bitlen_bounds [OF q] have qb: "2 ^ (b - 1) \<le> q" "q < 2 ^ b"
    by (simp_all add: b_def pred)
  have d: "bitlen p - bitlen q = int a - int b"
    by (simp add: a_def b_def bitlen_nonneg)
  have a1: "a = Suc (a - 1)" using p pa(2) by (cases a) auto
  have b1: "b = Suc (b - 1)" using q qb(2) by (cases b) auto
  from pa have "(of_int (2 ^ (a - 1)) :: rat) \<le> of_int p" "(of_int p :: rat) < of_int (2 ^ a)"
    by (simp_all only: of_int_le_iff of_int_less_iff)
  then have P: "(2::rat) ^ (a - 1) \<le> of_int p" "of_int p < (2::rat) ^ a"
    by simp_all
  from qb have "(of_int (2 ^ (b - 1)) :: rat) \<le> of_int q" "(of_int q :: rat) < of_int (2 ^ b)"
    by (simp_all only: of_int_le_iff of_int_less_iff)
  then have Q: "(2::rat) ^ (b - 1) \<le> of_int q" "of_int q < (2::rat) ^ b"
    by simp_all
  have "x < 2 ^ a / 2 ^ (b - 1)"
    unfolding x using p P(2) Q(1) by (intro frac_less) simp_all
  also have "(2::rat) ^ a / 2 ^ (b - 1) = 2 * (2 ^ a / 2 ^ b)"
    by (subst (2) b1) simp
  also have "\<dots> = pow2 (int a - int b + 1)"
    by (simp add: pow2_succ pow2_diff)
  finally have upper: "x < pow2 (int a - int b + 1)" .
  have "pow2 (int a - int b) = 2 * pow2 (int a - int b - 1)"
    using pow2_succ [of "int a - int b - 1"] by simp
  then have "pow2 (int a - int b - 1) = (2 ^ a / 2 ^ b) / 2"
    by (simp add: pow2_diff)
  also have "\<dots> = 2 ^ (a - 1) / 2 ^ b"
    by (subst a1) simp
  also have "\<dots> \<le> x"
    unfolding x using p q P(1) Q(2) by (intro frac_le) simp_all
  finally have lower: "pow2 (int a - int b - 1) \<le> x" .
  show ?thesis
    using upper lower pow2_succ [of "int a - int b - 1"]
    by (auto simp add: ilog2_def pq d Let_def)
qed

end
